theory Spec2Isabelle
  imports Complex_Main
begin

section \<open>Numbers of the handlers\<close>

text \<open>
  Timestamps are integers (seconds since the epoch) and prices are JavaScript numbers,
  that is IEEE 754 binary64 values.  Integers up to \<open>2^53\<close> in magnitude are doubles,
  and this is the range of the timestamps.  A finite double is kept as the rational it
  denotes;
  every arithmetic operation computes the exact result and rounds it to the nearest
  double, the one with the even significand on a tie, or to an infinity beyond the largest
  double.  Division by zero does not raise, it yields \<open>NaN\<close> or an infinity.  Negative
  zero is identified with zero: the handlers never divide by a zero that carries a sign,
  and JSON prints both as \<open>0\<close>.
\<close>

datatype jsnum = Fin rat | NaN | PosInf | NegInf

subsection \<open>Rounding to the nearest double\<close>

text \<open>\<open>ilog b n\<close> is the integer logarithm of \<open>n \<ge> 1\<close> to the base \<open>b \<ge> 2\<close>.\<close>

function ilog :: "int \<Rightarrow> int \<Rightarrow> int" where
  "ilog b n = (if b < 2 \<or> n < b then 0 else 1 + ilog b (n div b))"
  by pat_completeness auto
termination
proof (relation "measure (\<lambda>(b, n). nat n)")
  show "wf (measure (\<lambda>(b::int, n::int). nat n))" by simp
next
  fix b n :: int
  assume a: "\<not> (b < 2 \<or> n < b)"
  then have "0 < n div b" by (simp add: pos_imp_zdiv_pos_iff)
  moreover have "n div b < n" using a by (simp add: int_div_less_self)
  ultimately show "((b, n div b), (b, n)) \<in> measure (\<lambda>(b::int, n::int). nat n)" by simp
qed

declare ilog.simps [simp del]

function ipow :: "rat \<Rightarrow> int \<Rightarrow> rat" where
  "ipow b e = (if e \<le> 0 then 1 else b * ipow b (e - 1))"
  by pat_completeness auto
termination
  by (relation "measure (\<lambda>(b, e). nat e)") auto

declare ipow.simps [simp del]

text \<open>\<open>pow b e\<close> is \<open>b\<close> to the power \<open>e\<close>, for an exponent of either sign.\<close>

definition pow :: "rat \<Rightarrow> int \<Rightarrow> rat" where
  "pow b e = (if 0 \<le> e then ipow b e else 1 / ipow b (- e))"

text \<open>
  \<open>floorLog b x\<close> is the largest \<open>e\<close> with \<open>b^e \<le> x\<close>, for \<open>x > 0\<close>: the difference of
  the logarithms of numerator and denominator, or one less.
\<close>

definition floorLog :: "int \<Rightarrow> rat \<Rightarrow> int" where
  "floorLog b x =
     (let (p, q) = quotient_of x;
          e0 = ilog b p - ilog b q
      in if pow (of_int b) e0 \<le> x then e0 else e0 - 1)"

definition roundHalfEven :: "rat \<Rightarrow> int" where
  "roundHalfEven x =
     (let f = \<lfloor>x\<rfloor>; d = x - of_int f
      in if d < 1 / 2 then f else if 1 / 2 < d then f + 1
         else if even f then f else f + 1)"

text \<open>
  A double has a significand of 53 bits and an exponent from \<open>-1022\<close> to \<open>1023\<close>:
  for \<open>a > 0\<close> in the binade \<open>2^e \<le> a < 2^(e+1)\<close> the doubles are the multiples of
  \<open>2^(e-52)\<close>, and below \<open>2^(-1022)\<close> they are the multiples of \<open>2^(-1074)\<close>.
\<close>

definition binade :: "rat \<Rightarrow> int" where
  "binade a = max (floorLog 2 a) (- 1022)"

definition significand :: "rat \<Rightarrow> int" where
  "significand a = roundHalfEven (a / pow 2 (binade a - 52))"

definition flVal :: "rat \<Rightarrow> rat" where
  "flVal x =
     (if x = 0 then 0
      else sgn x * of_int (significand \<bar>x\<bar>) * pow 2 (binade \<bar>x\<bar> - 52))"

text \<open>The rounded magnitude reaches \<open>2^1024\<close>: the result is an infinity.\<close>

definition overflows :: "rat \<Rightarrow> bool" where
  "overflows x \<longleftrightarrow>
     x \<noteq> 0 \<and> (1024 \<le> binade \<bar>x\<bar>
               \<or> (binade \<bar>x\<bar> = 1023 \<and> significand \<bar>x\<bar> = 9007199254740992))"

definition fl :: "rat \<Rightarrow> jsnum" where
  "fl x = (if overflows x then (if 0 < x then PosInf else NegInf) else Fin (flVal x))"

text \<open>A rational is a double when rounding leaves it as it is.\<close>

definition isDouble :: "rat \<Rightarrow> bool" where
  "isDouble x \<longleftrightarrow> fl x = Fin x"

subsection \<open>The arithmetic operators\<close>

fun js_neg :: "jsnum \<Rightarrow> jsnum" where
  "js_neg (Fin a) = Fin (- a)"
| "js_neg NaN = NaN"
| "js_neg PosInf = NegInf"
| "js_neg NegInf = PosInf"

fun js_add :: "jsnum \<Rightarrow> jsnum \<Rightarrow> jsnum" where
  "js_add (Fin a) (Fin b) = fl (a + b)"
| "js_add NaN y = NaN"
| "js_add x NaN = NaN"
| "js_add PosInf NegInf = NaN"
| "js_add NegInf PosInf = NaN"
| "js_add PosInf y = PosInf"
| "js_add NegInf y = NegInf"
| "js_add (Fin a) PosInf = PosInf"
| "js_add (Fin a) NegInf = NegInf"

definition js_sub :: "jsnum \<Rightarrow> jsnum \<Rightarrow> jsnum" where
  "js_sub x y = js_add x (js_neg y)"

text \<open>The sign of a number that is not \<open>NaN\<close>: \<open>-1\<close>, \<open>0\<close> or \<open>1\<close>.\<close>

fun js_sign :: "jsnum \<Rightarrow> int" where
  "js_sign (Fin a) = (if a < 0 then - 1 else if a = 0 then 0 else 1)"
| "js_sign NaN = 0"
| "js_sign PosInf = 1"
| "js_sign NegInf = - 1"

definition signedInf :: "int \<Rightarrow> jsnum" where
  "signedInf s = (if s = 0 then NaN else if 0 < s then PosInf else NegInf)"

fun js_mul :: "jsnum \<Rightarrow> jsnum \<Rightarrow> jsnum" where
  "js_mul (Fin a) (Fin b) = fl (a * b)"
| "js_mul NaN y = NaN"
| "js_mul x NaN = NaN"
| "js_mul x y = signedInf (js_sign x * js_sign y)"

fun js_div :: "jsnum \<Rightarrow> jsnum \<Rightarrow> jsnum" where
  "js_div (Fin a) (Fin b) = (if b = 0 then signedInf (js_sign (Fin a)) else fl (a / b))"
| "js_div NaN y = NaN"
| "js_div x NaN = NaN"
| "js_div (Fin a) y = Fin 0"
| "js_div x (Fin b) = (if b < 0 then js_neg x else x)"
| "js_div x y = NaN"

subsection \<open>Decimal text\<close>

text \<open>
  \<open>parseFloat(x.toFixed(8))\<close>: \<open>toFixed\<close> takes the sign off, picks the integer \<open>n\<close>
  with \<open>n / 10^8\<close> closest to the exact value of the magnitude (the larger one on a tie)
  and prints it with eight decimals; from \<open>10^21\<close> on it prints the number itself.
  \<open>parseFloat\<close> reads the text back as the nearest double.  \<open>NaN\<close> and the infinities
  print as their names and \<open>parseFloat\<close> reads them back.
\<close>

definition roundFixed8 :: "rat \<Rightarrow> rat" where
  "roundFixed8 x =
     (if 10 ^ 21 \<le> \<bar>x\<bar> then x
      else if x < 0 then - (of_int \<lfloor>(- x) * 10 ^ 8 + 1 / 2\<rfloor> / 10 ^ 8)
      else of_int \<lfloor>x * 10 ^ 8 + 1 / 2\<rfloor> / 10 ^ 8)"

fun toFixed8 :: "jsnum \<Rightarrow> jsnum" where
  "toFixed8 (Fin x) = fl (roundFixed8 x)"
| "toFixed8 NaN = NaN"
| "toFixed8 PosInf = PosInf"
| "toFixed8 NegInf = NegInf"

text \<open>
  The decimal that \<open>JSON.stringify\<close> prints for a finite double \<open>x\<close>
  (\<open>Number::toString\<close>): the one with the fewest significant digits that reads back
  as \<open>x\<close>, and of these the closest to \<open>x\<close>.  For \<open>k\<close> digits the candidates are the
  two neighbours of \<open>x\<close> among the multiples of \<open>10^(E+1-k)\<close>, where \<open>10^E \<le> x\<close>;
  seventeen digits always suffice.
\<close>

definition decimalPick :: "rat \<Rightarrow> int \<Rightarrow> rat \<Rightarrow> rat option" where
  "decimalPick x s sc =
     (let lo = of_int s * sc; hi = lo + sc
      in if fl lo = Fin x \<and> fl hi = Fin x
         then Some (if x - lo < hi - x then lo
                    else if hi - x < x - lo then hi
                    else if even s then lo else hi)
         else if fl lo = Fin x then Some lo
         else if fl hi = Fin x then Some hi
         else None)"

fun shortestFrom :: "nat \<Rightarrow> rat \<Rightarrow> int \<Rightarrow> int \<Rightarrow> rat" where
  "shortestFrom 0 x E k = x"
| "shortestFrom (Suc fuel) x E k =
     (let sc = pow 10 (E + 1 - k)
      in case decimalPick x \<lfloor>x / sc\<rfloor> sc of
           Some d \<Rightarrow> d
         | None \<Rightarrow> shortestFrom fuel x E (k + 1))"

definition shortestDecimal :: "rat \<Rightarrow> rat" where
  "shortestDecimal x =
     (if x = 0 then 0 else sgn x * shortestFrom 17 \<bar>x\<bar> (floorLog 10 \<bar>x\<bar>) 1)"

section \<open>The price function (supabase/functions/price/index.ts)\<close>

subsection \<open>Data\<close>

text \<open>
  A row of the table \<open>token_prices\<close>, as a \<open>select\<close> hands it to the handler.  The
  price is the number the handler reads: the column is \<open>DECIMAL(20, 8)\<close>, the database
  sends its decimal digits, and the client reads them as the nearest double.  The calendar
  date is kept as the number of the UTC day since the epoch, of which the ISO string
  \<open>YYYY-MM-DD\<close> is a rendering; the columns the database fills in by itself (\<open>id\<close>,
  \<open>created_at\<close>, \<open>updated_at\<close>) are left out.  The table is the list of its rows in
  the order of their insertion.
\<close>

record CachedPrice =
  token_address :: string
  network :: string
  timestamp :: int
  price :: rat
  date :: int

text \<open>The object handed to \<open>insert\<close>: the price is still a JavaScript number.\<close>

record PriceInsert =
  new_token_address :: string
  new_network :: string
  new_timestamp :: int
  new_price :: jsnum
  new_date :: int

record PriceResponse =
  resp_price :: jsnum
  resp_source :: string

text \<open>The error responses: the HTTP status and the \<open>error\<close> text of the JSON body.\<close>

datatype error = HttpError nat string

text \<open>
  What the handler reads besides the request and the table: the environment variable
  \<open>ALCHEMY_API_KEY\<close> and the draw of \<open>Math.random()\<close>, a double in \<open>[0, 1)\<close>.
\<close>

record price_env =
  alchemyApiKey :: "string option"
  random :: rat

subsection \<open>Helpers\<close>

text \<open>\<open>String.prototype.toLowerCase\<close> on ASCII text.\<close>

definition lowerChar :: "char \<Rightarrow> char" where
  "lowerChar c =
     (if (65::nat) \<le> of_char c \<and> of_char c \<le> (90::nat)
      then char_of (of_char c + (32::nat)) else c)"

definition toLowerCase :: "string \<Rightarrow> string" where
  "toLowerCase s = map lowerChar s"

text \<open>
  \<open>new Date(timestamp * 1000).toISOString().split('T')[0]\<close>: the UTC day of the
  timestamp.  \<open>toISOString\<close> throws a \<open>RangeError\<close> when the time value is outside
  \<open>\<plusminus>8.64e15\<close> milliseconds; that is \<open>None\<close>.
\<close>

definition isoDate :: "int \<Rightarrow> int option" where
  "isoDate ts =
     (if \<bar>ts * 1000\<bar> \<le> 8640000000000000 then Some (ts div 86400) else None)"

subsection \<open>Interpolation\<close>

text \<open>
  The five arguments are finite numbers: the timestamps are integers and the prices are
  the numbers read from two rows.  Each of the six operations rounds.
\<close>

definition interpolatePrice :: "int \<Rightarrow> int \<Rightarrow> rat \<Rightarrow> int \<Rightarrow> rat \<Rightarrow> jsnum" where
  "interpolatePrice targetTimestamp beforeTimestamp beforePrice afterTimestamp afterPrice =
     (let ratio = js_div (js_sub (Fin (of_int targetTimestamp)) (Fin (of_int beforeTimestamp)))
                         (js_sub (Fin (of_int afterTimestamp)) (Fin (of_int beforeTimestamp)))
      in js_add (Fin beforePrice) (js_mul (js_sub (Fin afterPrice) (Fin beforePrice)) ratio))"

subsection \<open>The three queries on \<open>token_prices\<close>\<close>

text \<open>
  Each query filters on the lower-cased token and the network, orders by timestamp and
  keeps at most one row (\<open>limit(1)\<close>).  Among rows with the same timestamp the database
  promises no order; the model keeps the order of insertion.
\<close>

definition forToken :: "string \<Rightarrow> string \<Rightarrow> CachedPrice \<Rightarrow> bool" where
  "forToken token net r \<longleftrightarrow> token_address r = toLowerCase token \<and> network r = net"

definition queryExactMatch :: "CachedPrice list \<Rightarrow> string \<Rightarrow> string \<Rightarrow> int \<Rightarrow> int \<Rightarrow> CachedPrice list" where
  "queryExactMatch store token net ts tolerance =
     take 1 (sort_key timestamp
       (filter (\<lambda>r. forToken token net r \<and> ts - tolerance \<le> timestamp r
                     \<and> timestamp r \<le> ts + tolerance) store))"

definition queryBefore :: "CachedPrice list \<Rightarrow> string \<Rightarrow> string \<Rightarrow> int \<Rightarrow> CachedPrice list" where
  "queryBefore store token net ts =
     take 1 (sort_key (\<lambda>r. - timestamp r)
       (filter (\<lambda>r. forToken token net r \<and> timestamp r < ts) store))"

definition queryAfter :: "CachedPrice list \<Rightarrow> string \<Rightarrow> string \<Rightarrow> int \<Rightarrow> CachedPrice list" where
  "queryAfter store token net ts =
     take 1 (sort_key timestamp
       (filter (\<lambda>r. forToken token net r \<and> ts < timestamp r) store))"

subsection \<open>Inserts into \<open>token_prices\<close>\<close>

text \<open>
  The migration declares \<open>price DECIMAL(20, 8) NOT NULL\<close> and a unique index on
  \<open>(token_address, network, date)\<close>.  The client sends the price as the decimal text of
  the double (\<open>null\<close> for \<open>NaN\<close> and the infinities, which \<open>NOT NULL\<close> refuses); the
  database rounds that decimal to eight places, half away from zero, and refuses a value
  that needs more than twelve digits before the point.  A later \<open>select\<close> gives the
  double nearest to the stored decimal.  The date text is taken to be one that the column
  reads, as it is for the years 0001 to 9999.
\<close>

definition pgRound8 :: "rat \<Rightarrow> rat" where
  "pgRound8 v =
     (if v < 0 then - (of_int \<lfloor>(- v) * 10 ^ 8 + 1 / 2\<rfloor> / 10 ^ 8)
      else of_int \<lfloor>v * 10 ^ 8 + 1 / 2\<rfloor> / 10 ^ 8)"

fun pgNumeric8 :: "jsnum \<Rightarrow> rat option" where
  "pgNumeric8 (Fin x) =
     (let v = pgRound8 (shortestDecimal x)
      in if 10 ^ 12 \<le> \<bar>v\<bar> then None else Some v)"
| "pgNumeric8 NaN = None"
| "pgNumeric8 PosInf = None"
| "pgNumeric8 NegInf = None"

definition pgRow :: "PriceInsert \<Rightarrow> CachedPrice option" where
  "pgRow n =
     (case pgNumeric8 (new_price n) of
        None \<Rightarrow> None
      | Some v \<Rightarrow>
          Some \<lparr>token_address = new_token_address n, network = new_network n,
                timestamp = new_timestamp n, price = flVal v, date = new_date n\<rparr>)"

definition sameDay :: "CachedPrice \<Rightarrow> CachedPrice \<Rightarrow> bool" where
  "sameDay r r' \<longleftrightarrow>
     token_address r = token_address r' \<and> network r = network r' \<and> date r = date r'"

fun uniqueDays :: "CachedPrice list \<Rightarrow> bool" where
  "uniqueDays [] = True"
| "uniqueDays (r # rs) = (list_all (\<lambda>r'. \<not> sameDay r r') rs \<and> uniqueDays rs)"

text \<open>
  One \<open>insert\<close> call is one statement: when a value is refused or a row meets the unique
  index, on a stored row or on another row of the same call, nothing is written.  The
  handlers do not look at the error that comes back.
\<close>

definition insertPrices :: "CachedPrice list \<Rightarrow> PriceInsert list \<Rightarrow> CachedPrice list" where
  "insertPrices store news =
     (case those (map pgRow news) of
        None \<Rightarrow> store
      | Some rows \<Rightarrow>
          if list_all (\<lambda>r. list_all (\<lambda>r'. \<not> sameDay r r') store) rows \<and> uniqueDays rows
          then store @ rows else store)"

subsection \<open>The handler\<close>

text \<open>
  The stand-in for the call of the external source,
  \<open>const mockPrice = 1.0 + Math.random() * 0.1\<close>.
\<close>

definition mockPrice :: "price_env \<Rightarrow> jsnum" where
  "mockPrice env = js_add (Fin 1) (js_mul (Fin (random env)) (fl (1 / 10)))"

text \<open>
  The handler for a POST request whose body gives \<open>token\<close>, \<open>network\<close> and
  \<open>timestamp\<close>; a field that is missing is the empty string or \<open>0\<close>, which \<open>!\<close> also
  takes for missing.  The result is the response and the table afterwards.
\<close>

definition serve_price ::
  "price_env \<Rightarrow> CachedPrice list \<Rightarrow> string \<Rightarrow> string \<Rightarrow> int
     \<Rightarrow> (error + PriceResponse) \<times> CachedPrice list" where
  "serve_price env store token net ts =
     (if token = [] \<or> net = [] \<or> ts = 0
      then (Inl (HttpError 400 ''Missing required fields: token, network, timestamp''), store)
      else
        let tolerance = 3600 in
        case queryExactMatch store token net ts tolerance of
          cachedPrice # _ \<Rightarrow>
            (Inr \<lparr>resp_price = Fin (price cachedPrice), resp_source = ''cache''\<rparr>, store)
        | [] \<Rightarrow>
            (case (queryBefore store token net ts, queryAfter store token net ts) of
               (beforePrice # _, afterPrice # _) \<Rightarrow>
                 let interpolatedPrice =
                       interpolatePrice ts (timestamp beforePrice) (price beforePrice)
                         (timestamp afterPrice) (price afterPrice)
                 in (Inr \<lparr>resp_price = toFixed8 interpolatedPrice,
                          resp_source = ''interpolated''\<rparr>, store)
             | _ \<Rightarrow>
                 if alchemyApiKey env = None \<or> alchemyApiKey env = Some []
                 then (Inl (HttpError 500 ''Alchemy API key not configured''), store)
                 else
                   case isoDate ts of
                     None \<Rightarrow> (Inl (HttpError 500 ''Internal server error''), store)
                   | Some targetDate \<Rightarrow>
                       (Inr \<lparr>resp_price = toFixed8 (mockPrice env),
                             resp_source = ''alchemy''\<rparr>,
                        insertPrices store
                          [\<lparr>new_token_address = toLowerCase token, new_network = net,
                            new_timestamp = ts, new_price = mockPrice env,
                            new_date = targetDate\<rparr>])))"


text \<open>
  The request falls through to the external source when the tolerance window holds no row
  and a row is missing on one side of the timestamp at least.
\<close>

definition inWindow :: "int \<Rightarrow> CachedPrice \<Rightarrow> bool" where
  "inWindow ts r \<longleftrightarrow> ts - 3600 \<le> timestamp r \<and> timestamp r \<le> ts + 3600"

definition fallsThrough :: "CachedPrice list \<Rightarrow> string \<Rightarrow> string \<Rightarrow> int \<Rightarrow> bool" where
  "fallsThrough store token net ts \<longleftrightarrow>
     queryExactMatch store token net ts 3600 = [] \<and>
     (queryBefore store token net ts = [] \<or> queryAfter store token net ts = [])"

subsection \<open>The cache lookup as the specification words it\<close>

text \<open>
  The specification asks for the stored point closest to the target among those within
  the tolerance, the earlier one on a tie.  \<open>spec_closest\<close> follows these words; it is
  compared with the handler below.
\<close>

definition spec_closer :: "int \<Rightarrow> CachedPrice \<Rightarrow> CachedPrice \<Rightarrow> CachedPrice" where
  "spec_closer ts a b =
     (if \<bar>timestamp b - ts\<bar> < \<bar>timestamp a - ts\<bar>
         \<or> (\<bar>timestamp b - ts\<bar> = \<bar>timestamp a - ts\<bar> \<and> timestamp b < timestamp a)
      then b else a)"

definition spec_closest :: "CachedPrice list \<Rightarrow> string \<Rightarrow> string \<Rightarrow> int \<Rightarrow> CachedPrice option" where
  "spec_closest store token net ts =
     (case filter (\<lambda>r. forToken token net r \<and> inWindow ts r) store of
        [] \<Rightarrow> None
      | r # rs \<Rightarrow> Some (foldl (spec_closer ts) r rs))"

section \<open>The schedule function (supabase/functions/schedule/index.ts)\<close>

subsection \<open>Data\<close>

text \<open>
  A row of the table \<open>price_fetch_jobs\<close>, without the columns that only carry the time of
  a write (\<open>started_at\<close>, \<open>updated_at\<close>).  The column \<open>job_id\<close> is \<open>UNIQUE\<close>, so
  the table is a map from the job id to the row.
\<close>

record job =
  job_id :: string
  job_token_address :: string
  job_network :: string
  total_days :: nat
  completed_days :: nat
  status :: string
  error_message :: "string option"

record db =
  token_prices :: "CachedPrice list"
  price_fetch_jobs :: "string \<rightharpoonup> job"

record ScheduleResponse =
  resp_job_id :: string
  message :: string
  estimated_days :: nat

text \<open>
  What the function reads from outside: the clock, once in each of the three places that
  call \<open>Date.now()\<close> (milliseconds), and the outcome of each call of
  \<open>fetchPriceFromAlchemy\<close>, the price or the message of the error the promise rejects
  with.  The mock in the source computes its price from a sine and random noise and never
  rejects; the model takes every outcome from the environment.  A price is a finite
  double.
\<close>

record schedule_env =
  nowBirthdate :: int
  nowEnumerate :: int
  nowJobId :: int
  fetchPriceFromAlchemy :: "string \<Rightarrow> string \<Rightarrow> int \<Rightarrow> string + rat"

text \<open>The closure of the callback given to \<open>setTimeout\<close>.\<close>

record task =
  task_jobId :: string
  task_dailyTimestamps :: "int list"
  task_chunks :: "int list list"

subsection \<open>Helpers\<close>

text \<open>The decimal digits of a number, as a template literal prints \<open>Date.now()\<close>.\<close>

function digits :: "int \<Rightarrow> string" where
  "digits n = (if n < 10 then [char_of (48 + n)] else digits (n div 10) @ [char_of (48 + n mod 10)])"
  by pat_completeness auto
termination
  by (relation "measure nat") auto

declare digits.simps [simp del]

definition numberToString :: "int \<Rightarrow> string" where
  "numberToString i = (if i < 0 then CHR ''-'' # digits (- i) else digits i)"

definition getTokenBirthdate :: "schedule_env \<Rightarrow> int" where
  "getTokenBirthdate env =
     (let oneYearAgo = nowBirthdate env - 365 * 24 * 60 * 60 * 1000
      in oneYearAgo div 1000)"

text \<open>
  \<open>generateDailyTimestamps\<close>: the loop
  \<open>for (ts = startTimestamp; ts <= now; ts += oneDaySeconds)\<close>; the result is the list
  of the pushed values, in the order of the pushes.
\<close>

definition oneDaySeconds :: int where
  "oneDaySeconds = 24 * 60 * 60"

function dailyLoop :: "int \<Rightarrow> int \<Rightarrow> int list" where
  "dailyLoop now ts = (if ts \<le> now then ts # dailyLoop now (ts + oneDaySeconds) else [])"
  by pat_completeness auto
termination
  by (relation "measure (\<lambda>(now, ts). nat (now - ts + 1))") (auto simp: oneDaySeconds_def)

declare dailyLoop.simps [simp del]

definition generateDailyTimestamps :: "int \<Rightarrow> int \<Rightarrow> int list" where
  "generateDailyTimestamps nowMs startTimestamp =
     (let now = nowMs div 1000 in dailyLoop now startTimestamp)"

text \<open>
  The loop \<open>for (i = 0; i < dailyTimestamps.length; i += chunkSize)\<close>, pushing
  \<open>dailyTimestamps.slice(i, i + chunkSize)\<close>.
\<close>

definition chunkSize :: nat where
  "chunkSize = 10"

function chunkLoop :: "int list \<Rightarrow> nat \<Rightarrow> int list list" where
  "chunkLoop dailyTimestamps i =
     (if i < length dailyTimestamps
      then take chunkSize (drop i dailyTimestamps) # chunkLoop dailyTimestamps (i + chunkSize)
      else [])"
  by pat_completeness auto
termination
  by (relation "measure (\<lambda>(dailyTimestamps, i). length dailyTimestamps - i)")
     (auto simp: chunkSize_def)

declare chunkLoop.simps [simp del]

text \<open>
  The latest stored date of the token, \<open>order('date', descending).limit(1)\<close>, and the
  start of the enumeration: the day after that date, or the birth date of the token.
\<close>

definition queryLatestDate :: "CachedPrice list \<Rightarrow> string \<Rightarrow> string \<Rightarrow> CachedPrice list" where
  "queryLatestDate store token net =
     take 1 (sort_key (\<lambda>r. - date r) (filter (forToken token net) store))"

definition startTimestampOf :: "schedule_env \<Rightarrow> db \<Rightarrow> string \<Rightarrow> string \<Rightarrow> int" where
  "startTimestampOf env d token net =
     (case queryLatestDate (token_prices d) token net of
        existing # _ \<Rightarrow> date existing * 86400 + 86400
      | [] \<Rightarrow> getTokenBirthdate env)"

subsection \<open>The handler\<close>

text \<open>The job id, \<open>`job-${token.slice(0, 8)}-${Date.now()}`\<close>.\<close>

definition makeJobId :: "schedule_env \<Rightarrow> string \<Rightarrow> string" where
  "makeJobId env token = ''job-'' @ take 8 token @ ''-'' @ numberToString (nowJobId env)"

text \<open>
  The insert of a job row.  \<open>job_id\<close> is \<open>UNIQUE\<close>: when the table holds a row of that
  id the insert is refused and the table stays as it is.  The handler does not look at
  the error.
\<close>

definition insertJob :: "db \<Rightarrow> job \<Rightarrow> db" where
  "insertJob d j =
     (case price_fetch_jobs d (job_id j) of
        None \<Rightarrow> d\<lparr>price_fetch_jobs := (price_fetch_jobs d)(job_id j \<mapsto> j)\<rparr>
      | Some _ \<Rightarrow> d)"

text \<open>
  The result is the response, the database after the insert of the job, and the task
  handed to \<open>setTimeout\<close> when there is one.  The job is inserted with the status
  \<open>running\<close>.
\<close>

definition serve_schedule ::
  "schedule_env \<Rightarrow> db \<Rightarrow> string \<Rightarrow> string
     \<Rightarrow> (error + ScheduleResponse) \<times> db \<times> task option" where
  "serve_schedule env d token net =
     (if token = [] \<or> net = []
      then (Inl (HttpError 400 ''Missing required fields: token, network''), d, None)
      else
        let startTimestamp = startTimestampOf env d token net;
            dailyTimestamps = generateDailyTimestamps (nowEnumerate env) startTimestamp
        in if length dailyTimestamps = 0
           then (Inr \<lparr>resp_job_id = ''no-work-'' @ numberToString (nowJobId env),
                      message = ''All historical data already cached'',
                      estimated_days = 0\<rparr>, d, None)
           else
             let jobId = makeJobId env token;
                 d' = insertJob d
                        \<lparr>job_id = jobId, job_token_address = toLowerCase token,
                         job_network = net, total_days = length dailyTimestamps,
                         completed_days = 0, status = ''running'',
                         error_message = None\<rparr>;
                 chunks = chunkLoop dailyTimestamps 0
             in (Inr \<lparr>resp_job_id = jobId,
                      message = ''Historical price fetch scheduled successfully'',
                      estimated_days = length dailyTimestamps\<rparr>,
                 d',
                 Some \<lparr>task_jobId = jobId, task_dailyTimestamps = dailyTimestamps,
                       task_chunks = chunks\<rparr>))"

subsection \<open>The background job\<close>






text \<open>
  Values for the examples: the job table without rows, and an outcome of the fetches in
  which the call for one timestamp rejects and every other call gives the price \<open>1\<close>.
\<close>

definition noJobs :: "string \<rightharpoonup> job" where
  "noJobs = Map.empty"

definition fetchFailingAt :: "int \<Rightarrow> string \<Rightarrow> string \<Rightarrow> int \<Rightarrow> string + rat" where
  "fetchFailingAt bad token net ts = (if ts = bad then Inl ''upstream failure'' else Inr 1)"



section \<open>The price function: proofs\<close>

subsection \<open>What the queries return\<close>

lemma sort_key_Nil_iff: "sort_key f ys = [] \<longleftrightarrow> ys = []"
  using length_sort [of f ys] by (metis length_0_conv)

lemma take1_sort_key_Cons:
  assumes "take 1 (sort_key f ys) = r # rest"
  shows "rest = [] \<and> r \<in> set ys \<and> (\<forall>y\<in>set ys. f r \<le> f y)"
proof -
  obtain zs where zs: "sort_key f ys = r # zs" and rest: "rest = []"
    using assms by (cases "sort_key f ys") auto
  have "sorted (map f (r # zs))" using sorted_sort_key [of f ys] zs by simp
  then have le: "\<forall>z\<in>set zs. f r \<le> f z" by simp
  have eq: "set ys = insert r (set zs)" using set_sort [of f ys] zs by simp
  show ?thesis using rest le eq by auto
qed

lemma queryExactMatch_Nil:
  "queryExactMatch store token net ts 3600 = [] \<longleftrightarrow>
     (\<forall>r\<in>set store. forToken token net r \<longrightarrow> \<not> inWindow ts r)"
  by (auto simp: queryExactMatch_def sort_key_Nil_iff filter_empty_conv inWindow_def)

lemma queryExactMatch_Cons:
  assumes "queryExactMatch store token net ts 3600 = r # rest"
  shows "r \<in> set store \<and> forToken token net r \<and> inWindow ts r \<and>
         (\<forall>r'\<in>set store. forToken token net r' \<and> inWindow ts r' \<longrightarrow> timestamp r \<le> timestamp r')"
  using take1_sort_key_Cons [OF assms [unfolded queryExactMatch_def]]
  by (auto simp: inWindow_def)

lemma queryBefore_Nil:
  "queryBefore store token net ts = [] \<longleftrightarrow>
     (\<forall>r\<in>set store. forToken token net r \<longrightarrow> \<not> timestamp r < ts)"
  by (auto simp: queryBefore_def sort_key_Nil_iff filter_empty_conv)

lemma queryBefore_Cons:
  assumes "queryBefore store token net ts = r # rest"
  shows "r \<in> set store \<and> forToken token net r \<and> timestamp r < ts \<and>
         (\<forall>r'\<in>set store. forToken token net r' \<and> timestamp r' < ts \<longrightarrow> timestamp r' \<le> timestamp r)"
  using take1_sort_key_Cons [OF assms [unfolded queryBefore_def]]
  by auto

lemma queryAfter_Nil:
  "queryAfter store token net ts = [] \<longleftrightarrow>
     (\<forall>r\<in>set store. forToken token net r \<longrightarrow> \<not> ts < timestamp r)"
  by (auto simp: queryAfter_def sort_key_Nil_iff filter_empty_conv)

lemma queryAfter_Cons:
  assumes "queryAfter store token net ts = r # rest"
  shows "r \<in> set store \<and> forToken token net r \<and> ts < timestamp r \<and>
         (\<forall>r'\<in>set store. forToken token net r' \<and> ts < timestamp r' \<longrightarrow> timestamp r \<le> timestamp r')"
  using take1_sort_key_Cons [OF assms [unfolded queryAfter_def]]
  by auto


subsection \<open>Facts about the arithmetic\<close>

lemma fl_zero: "fl 0 = Fin 0"
  by (simp add: fl_def overflows_def flVal_def)

lemma js_sub_Fin: "js_sub (Fin a) (Fin b) = fl (a - b)"
  by (simp add: js_sub_def)

lemma js_div_by_zero: "js_div x (Fin 0) \<noteq> Fin r"
  by (cases x) (simp_all add: signedInf_def)

lemma js_mul_not_finite: "\<forall>r. y \<noteq> Fin r \<Longrightarrow> js_mul x y \<noteq> Fin r"
  by (cases x; cases y) (simp_all add: signedInf_def)

lemma js_add_not_finite: "\<forall>r. y \<noteq> Fin r \<Longrightarrow> js_add (Fin a) y = y"
  by (cases y) simp_all

lemma not_finite_cases: "(\<forall>r. x \<noteq> Fin r) \<longleftrightarrow> x \<in> {NaN, PosInf, NegInf}"
  by (cases x) simp_all

lemma interpolatePrice_zero_width: "interpolatePrice t t0 p0 t0 p1 \<in> {NaN, PosInf, NegInf}"
proof -
  let ?ratio = "js_div (js_sub (Fin (of_int t)) (Fin (of_int t0))) (Fin 0)"
  let ?m = "js_mul (js_sub (Fin p1) (Fin p0)) ?ratio"
  have r: "\<forall>r. ?ratio \<noteq> Fin r" by (simp add: js_div_by_zero)
  then have m: "\<forall>r. ?m \<noteq> Fin r" by (simp add: js_mul_not_finite)
  then have "js_add (Fin p0) ?m = ?m" by (rule js_add_not_finite)
  then have "\<forall>r. interpolatePrice t t0 p0 t0 p1 \<noteq> Fin r"
    using m by (simp add: interpolatePrice_def js_sub_Fin fl_zero)
  then show ?thesis by (simp only: not_finite_cases)
qed

lemma interpolatePrice_exact:
  assumes ne: "t1 \<noteq> t0"
    and d1: "isDouble (of_int (t - t0))"
    and d2: "isDouble (of_int (t1 - t0))"
    and d3: "isDouble (of_int (t - t0) / of_int (t1 - t0))"
    and d4: "isDouble (p1 - p0)"
    and d5: "isDouble ((p1 - p0) * (of_int (t - t0) / of_int (t1 - t0)))"
    and d6: "isDouble (p0 + (p1 - p0) * (of_int (t - t0) / of_int (t1 - t0)))"
  shows "interpolatePrice t t0 p0 t1 p1 =
           Fin (p0 + (p1 - p0) * of_int (t - t0) / of_int (t1 - t0))"
proof -
  have n: "js_sub (Fin (of_int t)) (Fin (of_int t0)) = Fin (of_int (t - t0))"
    using d1 by (simp add: js_sub_Fin isDouble_def)
  have w: "js_sub (Fin (of_int t1)) (Fin (of_int t0)) = Fin (of_int (t1 - t0))"
    using d2 by (simp add: js_sub_Fin isDouble_def)
  have nz: "(of_int (t1 - t0) :: rat) \<noteq> 0" using ne by simp
  have q: "js_div (Fin (of_int (t - t0))) (Fin (of_int (t1 - t0))) =
             Fin (of_int (t - t0) / of_int (t1 - t0))"
    using d3 nz by (simp add: isDouble_def)
  have s: "js_sub (Fin p1) (Fin p0) = Fin (p1 - p0)"
    using d4 by (simp add: js_sub_Fin isDouble_def)
  have m: "js_mul (Fin (p1 - p0)) (Fin (of_int (t - t0) / of_int (t1 - t0))) =
             Fin ((p1 - p0) * (of_int (t - t0) / of_int (t1 - t0)))"
    using d5 by (simp add: isDouble_def)
  have a: "js_add (Fin p0) (Fin ((p1 - p0) * (of_int (t - t0) / of_int (t1 - t0)))) =
             Fin (p0 + (p1 - p0) * (of_int (t - t0) / of_int (t1 - t0)))"
    using d6 by (simp add: isDouble_def)
  show ?thesis
    unfolding interpolatePrice_def Let_def n w q s m a by simp
qed

subsection \<open>Interpolation\<close>

text \<open>
  Claim C1, as amended.  When no stored point of the token lies within 3600 seconds of the
  target, \<open>b\<close> is the latest stored point before the target and \<open>a\<close> the earliest
  after it, the handler answers with the source \<open>interpolated\<close> and leaves the table as it
  is; the price is \<open>p0 + (p1 - p0) * ((t - t0) / (t1 - t0))\<close> evaluated in double
  arithmetic, each operation rounded, and then rounded to eight decimals by \<open>toFixed\<close>.
  When every intermediate result is a double, this is the exact value of the formula
  rounded to eight decimals.
\<close>

theorem resolve_interpolated:
  assumes fields: "token \<noteq> []" "net \<noteq> []" "ts \<noteq> 0"
    and miss: "\<forall>r\<in>set store. forToken token net r \<longrightarrow> \<not> inWindow ts r"
    and b: "b \<in> set store" "forToken token net b" "timestamp b < ts"
    and b_latest: "\<forall>r\<in>set store. forToken token net r \<and> timestamp r < ts \<longrightarrow>
                     timestamp r \<le> timestamp b \<and> (timestamp r = timestamp b \<longrightarrow> price r = price b)"
    and a: "a \<in> set store" "forToken token net a" "ts < timestamp a"
    and a_earliest: "\<forall>r\<in>set store. forToken token net r \<and> ts < timestamp r \<longrightarrow>
                     timestamp a \<le> timestamp r \<and> (timestamp r = timestamp a \<longrightarrow> price r = price a)"
  shows "serve_price env store token net ts =
           (Inr \<lparr>resp_price =
                   toFixed8
                     (js_add (Fin (price b))
                        (js_mul (js_sub (Fin (price a)) (Fin (price b)))
                           (js_div (js_sub (Fin (of_int ts)) (Fin (of_int (timestamp b))))
                                   (js_sub (Fin (of_int (timestamp a)))
                                           (Fin (of_int (timestamp b))))))),
                 resp_source = ''interpolated''\<rparr>, store)
       \<and> (isDouble (of_int (ts - timestamp b))
          \<and> isDouble (of_int (timestamp a - timestamp b))
          \<and> isDouble (of_int (ts - timestamp b) / of_int (timestamp a - timestamp b))
          \<and> isDouble (price a - price b)
          \<and> isDouble ((price a - price b) *
                       (of_int (ts - timestamp b) / of_int (timestamp a - timestamp b)))
          \<and> isDouble (price b + (price a - price b) *
                       (of_int (ts - timestamp b) / of_int (timestamp a - timestamp b)))
          \<longrightarrow>
          serve_price env store token net ts =
            (Inr \<lparr>resp_price = fl (roundFixed8 (price b + (price a - price b) *
                      of_int (ts - timestamp b) / of_int (timestamp a - timestamp b))),
                  resp_source = ''interpolated''\<rparr>, store))"
proof -
  have exact: "queryExactMatch store token net ts 3600 = []"
    using miss by (simp add: queryExactMatch_Nil)
  obtain b' bs where qb: "queryBefore store token net ts = b' # bs"
    using b queryBefore_Nil [of store token net ts] by (cases "queryBefore store token net ts") auto
  obtain a' as where qa: "queryAfter store token net ts = a' # as"
    using a queryAfter_Nil [of store token net ts] by (cases "queryAfter store token net ts") auto
  note B = queryBefore_Cons [OF qb] and A = queryAfter_Cons [OF qa]
  have tb: "timestamp b' = timestamp b" using B b b_latest by force
  have pb: "price b' = price b" using B b_latest tb by blast
  have ta: "timestamp a' = timestamp a" using A a a_earliest by force
  have pa: "price a' = price a" using A a_earliest ta by blast
  have ne: "timestamp a \<noteq> timestamp b" using a b by simp
  have res: "serve_price env store token net ts =
      (Inr \<lparr>resp_price = toFixed8 (interpolatePrice ts (timestamp b) (price b)
                                      (timestamp a) (price a)),
            resp_source = ''interpolated''\<rparr>, store)"
    using fields exact qb qa by (simp add: serve_price_def tb pb ta pa)
  have first: "serve_price env store token net ts =
      (Inr \<lparr>resp_price =
              toFixed8
                (js_add (Fin (price b))
                   (js_mul (js_sub (Fin (price a)) (Fin (price b)))
                      (js_div (js_sub (Fin (of_int ts)) (Fin (of_int (timestamp b))))
                              (js_sub (Fin (of_int (timestamp a)))
                                      (Fin (of_int (timestamp b))))))),
            resp_source = ''interpolated''\<rparr>, store)"
    unfolding res by (simp add: interpolatePrice_def)
  have second: "serve_price env store token net ts =
        (Inr \<lparr>resp_price = fl (roundFixed8 (price b + (price a - price b) *
                  of_int (ts - timestamp b) / of_int (timestamp a - timestamp b))),
              resp_source = ''interpolated''\<rparr>, store)"
    if "isDouble (of_int (ts - timestamp b))"
      "isDouble (of_int (timestamp a - timestamp b))"
      "isDouble (of_int (ts - timestamp b) / of_int (timestamp a - timestamp b))"
      "isDouble (price a - price b)"
      "isDouble ((price a - price b) *
                 (of_int (ts - timestamp b) / of_int (timestamp a - timestamp b)))"
      "isDouble (price b + (price a - price b) *
                 (of_int (ts - timestamp b) / of_int (timestamp a - timestamp b)))"
    unfolding res using interpolatePrice_exact [OF ne that] by simp
  show ?thesis using first second by blast
qed

text \<open>
  The theorem at the points \<open>(100000, 1)\<close> and \<open>(200000, 2)\<close> and the target
  \<open>150000\<close>: every intermediate result is a double and the answer is \<open>1.5\<close>,
  interpolated.
\<close>

theorem resolve_interpolated_witness:
  "serve_price \<lparr>alchemyApiKey = None, random = 0\<rparr>
     [\<lparr>token_address = ''0xab'', network = ''eth'', timestamp = 100000, price = 1, date = 1\<rparr>,
      \<lparr>token_address = ''0xab'', network = ''eth'', timestamp = 200000, price = 2, date = 2\<rparr>]
     ''0xAB'' ''eth'' 150000 =
   (Inr \<lparr>resp_price = Fin (3 / 2), resp_source = ''interpolated''\<rparr>,
     [\<lparr>token_address = ''0xab'', network = ''eth'', timestamp = 100000, price = 1, date = 1\<rparr>,
      \<lparr>token_address = ''0xab'', network = ''eth'', timestamp = 200000, price = 2, date = 2\<rparr>])"
proof -
  let ?b = "\<lparr>token_address = ''0xab'', network = ''eth'', timestamp = 100000, price = 1, date = 1\<rparr>"
  let ?a = "\<lparr>token_address = ''0xab'', network = ''eth'', timestamp = 200000, price = 2, date = 2\<rparr>"
  let ?env = "\<lparr>alchemyApiKey = None, random = 0\<rparr>"
  have f1: "''0xAB'' \<noteq> []" and f2: "''eth'' \<noteq> []" and f3: "(150000::int) \<noteq> 0"
    by simp_all
  have tokb: "forToken ''0xAB'' ''eth'' ?b" by code_simp
  have toka: "forToken ''0xAB'' ''eth'' ?a" by code_simp
  have miss: "\<forall>r\<in>set [?b, ?a]. forToken ''0xAB'' ''eth'' r \<longrightarrow> \<not> inWindow 150000 r"
    by (simp add: inWindow_def)
  have bm: "?b \<in> set [?b, ?a]" and am: "?a \<in> set [?b, ?a]" by simp_all
  have bt: "timestamp ?b < 150000" and at: "150000 < timestamp ?a" by simp_all
  have bl: "\<forall>r\<in>set [?b, ?a]. forToken ''0xAB'' ''eth'' r \<and> timestamp r < 150000 \<longrightarrow>
              timestamp r \<le> timestamp ?b \<and> (timestamp r = timestamp ?b \<longrightarrow> price r = price ?b)"
    by simp
  have al: "\<forall>r\<in>set [?b, ?a]. forToken ''0xAB'' ''eth'' r \<and> 150000 < timestamp r \<longrightarrow>
              timestamp ?a \<le> timestamp r \<and> (timestamp r = timestamp ?a \<longrightarrow> price r = price ?a)"
    by simp
  have d1: "isDouble 50000" by code_simp
  have d2: "isDouble 100000" by code_simp
  have d3: "isDouble (1 / 2)" by code_simp
  have d4: "isDouble 1" by code_simp
  have d6: "isDouble (3 / 2)" by code_simp
  have r: "fl (roundFixed8 (3 / 2)) = Fin (3 / 2)" by code_simp
  have "serve_price ?env [?b, ?a] ''0xAB'' ''eth'' 150000 =
          (Inr \<lparr>resp_price = fl (roundFixed8 (price ?b + (price ?a - price ?b) *
                    of_int (150000 - timestamp ?b) / of_int (timestamp ?a - timestamp ?b))),
                resp_source = ''interpolated''\<rparr>, [?b, ?a])"
    using resolve_interpolated [OF f1 f2 f3 miss bm tokb bt bl am toka at al, of ?env,
        THEN conjunct2]
      d1 d2 d3 d4 d6
    by simp
  then show ?thesis by (simp add: r)
qed


text \<open>
  Claim C1 as stated fails twice.  At its own example, with the points \<open>(1000, 1)\<close>
  and \<open>(2000, 2)\<close>, both points are within 3600 seconds of \<open>1500\<close>, so the handler
  answers from the cache, with the price of the earlier point, and does not interpolate.
  And on the interpolated path the price is computed in doubles: between the prices
  \<open>0.5\<close> and \<open>0.50000001\<close> of two midnights, at noon, the handler answers \<open>0.5\<close>,
  where the exact value of the formula on the same two numbers, rounded to eight decimals,
  is \<open>0.50000001\<close>.
\<close>

theorem scenario_A_hits_cache_and_doubles_round:
  "fst (serve_price \<lparr>alchemyApiKey = None, random = 0\<rparr>
     [\<lparr>token_address = ''0xab'', network = ''eth'', timestamp = 1000, price = 1, date = 0\<rparr>,
      \<lparr>token_address = ''0xab'', network = ''eth'', timestamp = 2000, price = 2, date = 0\<rparr>]
     ''0xab'' ''eth'' 1500) =
   Inr \<lparr>resp_price = Fin 1, resp_source = ''cache''\<rparr>
   \<and> fst (serve_price \<lparr>alchemyApiKey = None, random = 0\<rparr>
     [\<lparr>token_address = ''0xab'', network = ''eth'', timestamp = 86400,
       price = 1 / 2, date = 1\<rparr>,
      \<lparr>token_address = ''0xab'', network = ''eth'', timestamp = 172800,
       price = flVal (50000001 / 100000000), date = 2\<rparr>]
     ''0xab'' ''eth'' 129600) =
   Inr \<lparr>resp_price = Fin (1 / 2), resp_source = ''interpolated''\<rparr>
   \<and> roundFixed8 (1 / 2 + (flVal (50000001 / 100000000) - 1 / 2) *
                      (129600 - 86400) / (172800 - 86400)) = 50000001 / 100000000"
  by code_simp


subsection \<open>The cache lookup\<close>

text \<open>
  Claim C2 as stated fails: with points at \<open>1000\<close> and \<open>4500\<close> and the target
  \<open>4000\<close> the closest point is the one at \<open>4500\<close>, and the handler answers with
  the price of the point at \<open>1000\<close>.
\<close>

theorem cache_hit_not_closest:
  "spec_closest
     [\<lparr>token_address = ''0xab'', network = ''eth'', timestamp = 1000, price = 1, date = 0\<rparr>,
      \<lparr>token_address = ''0xab'', network = ''eth'', timestamp = 4500, price = 2, date = 0\<rparr>]
     ''0xab'' ''eth'' 4000 =
     Some \<lparr>token_address = ''0xab'', network = ''eth'', timestamp = 4500, price = 2, date = 0\<rparr>
   \<and> fst (serve_price \<lparr>alchemyApiKey = None, random = 0\<rparr>
     [\<lparr>token_address = ''0xab'', network = ''eth'', timestamp = 1000, price = 1, date = 0\<rparr>,
      \<lparr>token_address = ''0xab'', network = ''eth'', timestamp = 4500, price = 2, date = 0\<rparr>]
     ''0xab'' ''eth'' 4000) =
     Inr \<lparr>resp_price = Fin 1, resp_source = ''cache''\<rparr>"
  by code_simp

text \<open>
  Claim C2, as amended.  When a stored point of the token lies within 3600 seconds of the
  target, the handler answers with the price of a stored point whose timestamp is the
  earliest in that window, with the source \<open>cache\<close>, and leaves the table as it is.
\<close>

theorem cache_hit_returns_earliest_in_window:
  assumes fields: "token \<noteq> []" "net \<noteq> []" "ts \<noteq> 0"
    and hit: "\<exists>r\<in>set store. forToken token net r \<and> inWindow ts r"
  shows "\<exists>r\<in>set store. forToken token net r \<and> inWindow ts r \<and>
           (\<forall>r'\<in>set store. forToken token net r' \<and> inWindow ts r' \<longrightarrow>
              timestamp r \<le> timestamp r') \<and>
           serve_price env store token net ts =
             (Inr \<lparr>resp_price = Fin (price r), resp_source = ''cache''\<rparr>, store)"
proof -
  obtain r rest where q: "queryExactMatch store token net ts 3600 = r # rest"
    using hit queryExactMatch_Nil [of store token net ts]
    by (cases "queryExactMatch store token net ts 3600") auto
  have "serve_price env store token net ts =
          (Inr \<lparr>resp_price = Fin (price r), resp_source = ''cache''\<rparr>, store)"
    using fields q by (simp add: serve_price_def)
  then show ?thesis using queryExactMatch_Cons [OF q] by blast
qed

text \<open>
  The theorem at the table of the counterexample, rows in the other order.
\<close>

theorem cache_hit_returns_earliest_in_window_witness:
  "serve_price \<lparr>alchemyApiKey = None, random = 0\<rparr>
     [\<lparr>token_address = ''0xab'', network = ''eth'', timestamp = 4500, price = 2, date = 0\<rparr>,
      \<lparr>token_address = ''0xab'', network = ''eth'', timestamp = 1000, price = 1, date = 0\<rparr>]
     ''0xAB'' ''eth'' 4000 =
   (Inr \<lparr>resp_price = Fin 1, resp_source = ''cache''\<rparr>,
     [\<lparr>token_address = ''0xab'', network = ''eth'', timestamp = 4500, price = 2, date = 0\<rparr>,
      \<lparr>token_address = ''0xab'', network = ''eth'', timestamp = 1000, price = 1, date = 0\<rparr>])"
proof -
  let ?x = "\<lparr>token_address = ''0xab'', network = ''eth'', timestamp = 4500, price = 2, date = 0\<rparr>"
  let ?y = "\<lparr>token_address = ''0xab'', network = ''eth'', timestamp = 1000, price = 1, date = 0\<rparr>"
  let ?env = "\<lparr>alchemyApiKey = None, random = 0\<rparr>"
  have tx: "forToken ''0xAB'' ''eth'' ?x" by code_simp
  have ty: "forToken ''0xAB'' ''eth'' ?y" by code_simp
  have wx: "inWindow 4000 ?x" by (simp add: inWindow_def)
  have wy: "inWindow 4000 ?y" by (simp add: inWindow_def)
  have hit: "\<exists>r\<in>set [?x, ?y]. forToken ''0xAB'' ''eth'' r \<and> inWindow 4000 r"
    using tx wx by simp
  have f1: "''0xAB'' \<noteq> []" and f2: "''eth'' \<noteq> []" and f3: "(4000::int) \<noteq> 0"
    by simp_all
  from cache_hit_returns_earliest_in_window [OF f1 f2 f3 hit, of ?env]
  obtain r where r: "r \<in> set [?x, ?y]"
    and least: "\<forall>r'\<in>set [?x, ?y]. forToken ''0xAB'' ''eth'' r' \<and> inWindow 4000 r' \<longrightarrow>
                  timestamp r \<le> timestamp r'"
    and res: "serve_price ?env [?x, ?y] ''0xAB'' ''eth'' 4000 =
                (Inr \<lparr>resp_price = Fin (price r), resp_source = ''cache''\<rparr>, [?x, ?y])"
    by blast
  have le: "timestamp r \<le> timestamp ?y" using least ty wy by simp
  have "r = ?x \<or> r = ?y" using r by simp
  then have "r = ?y"
  proof
    assume "r = ?x"
    then have "timestamp r = 4500" by simp
    then show ?thesis using le by simp
  qed
  then have "price r = 1" by simp
  then show ?thesis using res by simp
qed


subsection \<open>No bracket check in the interpolator\<close>

text \<open>
  Claim C3 as stated fails: \<open>interpolatePrice\<close> checks nothing.  With the upper bracket
  below the lower one, and with the target outside the bracket, it returns a number.
\<close>

theorem interpolatePrice_no_bracket_check:
  "interpolatePrice 5 10 1 0 2 = Fin (3 / 2) \<and> interpolatePrice 3000 1000 1 2000 2 = Fin 3"
  by code_simp

text \<open>
  Claim C3, as amended.  \<open>interpolatePrice\<close> has no failure: whatever the bracket and the
  target are, it returns the number that double arithmetic gives for
  \<open>p0 + (p1 - p0) * ((t - t0) / (t1 - t0))\<close>.  For \<open>t1 = t0\<close> that number is \<open>NaN\<close> or
  an infinity.  For \<open>t1 \<noteq> t0\<close> it is the exact value of the formula whenever every
  intermediate result is a double, with the target inside the bracket or not.
\<close>

theorem interpolatePrice_total:
  "(t1 = t0 \<longrightarrow> interpolatePrice t t0 p0 t1 p1 \<in> {NaN, PosInf, NegInf})
   \<and> (t1 \<noteq> t0
      \<and> isDouble (of_int (t - t0))
      \<and> isDouble (of_int (t1 - t0))
      \<and> isDouble (of_int (t - t0) / of_int (t1 - t0))
      \<and> isDouble (p1 - p0)
      \<and> isDouble ((p1 - p0) * (of_int (t - t0) / of_int (t1 - t0)))
      \<and> isDouble (p0 + (p1 - p0) * (of_int (t - t0) / of_int (t1 - t0)))
      \<longrightarrow>
      interpolatePrice t t0 p0 t1 p1 =
        Fin (p0 + (p1 - p0) * of_int (t - t0) / of_int (t1 - t0)))"
  using interpolatePrice_zero_width interpolatePrice_exact by blast

text \<open>
  The theorem at a reversed bracket with the target outside it, and at a bracket of width
  zero.
\<close>

theorem interpolatePrice_total_witness:
  "interpolatePrice 2500 2000 4 1000 2 = Fin 5
   \<and> interpolatePrice 7 7 1 7 2 \<in> {NaN, PosInf, NegInf}"
proof -
  have d1: "isDouble 500" by code_simp
  have d2: "isDouble (- 1000)" by code_simp
  have d3: "isDouble (- (1 / 2))" by code_simp
  have d4: "isDouble (- 2)" by code_simp
  have d5: "isDouble 1" by code_simp
  have d6: "isDouble 5" by code_simp
  have a: "interpolatePrice 2500 2000 4 1000 2 = Fin 5"
    using interpolatePrice_total [of 1000 2000 2500 4 2, THEN conjunct2] d1 d2 d3 d4 d5 d6
    by simp
  have b: "interpolatePrice 7 7 1 7 2 \<in> {NaN, PosInf, NegInf}"
    using interpolatePrice_total [of 7 7 7 1 2, THEN conjunct1] by simp
  show ?thesis using a b by simp
qed


subsection \<open>The source field\<close>

text \<open>
  Claim C4 as stated fails: on the fallback path the source is \<open>alchemy\<close>, which is
  not one of \<open>cache\<close>, \<open>interpolated\<close>, \<open>external\<close>.
\<close>

theorem external_source_is_alchemy:
  "fst (serve_price \<lparr>alchemyApiKey = Some ''key'', random = 0\<rparr> [] ''0xab'' ''eth'' 15000) =
     Inr \<lparr>resp_price = Fin 1, resp_source = ''alchemy''\<rparr>"
  by code_simp

lemma serve_price_sources:
  "fst (serve_price env store token net ts) = Inr resp \<Longrightarrow>
     resp_source resp \<in> {''cache'', ''interpolated'', ''alchemy''}"
  by (auto simp: serve_price_def Let_def split: if_splits list.splits option.splits)

lemma serve_price_external_source:
  "fallsThrough store token net ts \<Longrightarrow> fst (serve_price env store token net ts) = Inr resp \<Longrightarrow>
     resp_source resp = ''alchemy''"
  by (auto simp: serve_price_def fallsThrough_def Let_def split: if_splits list.splits option.splits)

text \<open>
  Claim C4, as amended.  The source of every successful response is one of \<open>cache\<close>,
  \<open>interpolated\<close> and \<open>alchemy\<close>, and it is \<open>alchemy\<close> when the request falls
  through to the external source.
\<close>

theorem resolve_source_values:
  assumes "fst (serve_price env store token net ts) = Inr resp"
  shows "resp_source resp \<in> {''cache'', ''interpolated'', ''alchemy''} \<and>
         (fallsThrough store token net ts \<longrightarrow> resp_source resp = ''alchemy'')"
  using assms serve_price_sources serve_price_external_source by blast

text \<open>
  The theorem at a request on the empty table.
\<close>

theorem resolve_source_values_witness:
  "fallsThrough [] ''0xAB'' ''eth'' 15000 \<and>
   resp_source (projr (fst (serve_price \<lparr>alchemyApiKey = Some ''key'', random = 1 / 4\<rparr>
      [] ''0xAB'' ''eth'' 15000))) = ''alchemy''"
proof -
  let ?r = "fst (serve_price \<lparr>alchemyApiKey = Some ''key'', random = 1 / 4\<rparr> [] ''0xAB'' ''eth'' 15000)"
  have ft: "fallsThrough [] ''0xAB'' ''eth'' 15000" by code_simp
  have "isl ?r = False" by code_simp
  then have ok: "?r = Inr (projr ?r)" by (cases ?r) auto
  show ?thesis using resolve_source_values [OF ok] ft by simp
qed

subsection \<open>Repeated calls\<close>

text \<open>
  Claim C5 as stated fails: on the empty table the same request gets the price \<open>1\<close>
  or \<open>1.05\<close> (the double nearest to it), as \<open>Math.random()\<close> draws \<open>0\<close> or
  \<open>0.5\<close>.
\<close>

theorem resolve_external_depends_on_random:
  "fst (serve_price \<lparr>alchemyApiKey = Some ''key'', random = 0\<rparr> [] ''0xab'' ''eth'' 15000) =
     Inr \<lparr>resp_price = Fin 1, resp_source = ''alchemy''\<rparr>
   \<and> fst (serve_price \<lparr>alchemyApiKey = Some ''key'', random = 1 / 2\<rparr> [] ''0xab'' ''eth'' 15000) =
     Inr \<lparr>resp_price = fl (21 / 20), resp_source = ''alchemy''\<rparr>"
  by code_simp

text \<open>
  Claim C5, as amended.  When the request does not fall through to the external source,
  the result is the same whatever the random draw and the API key are, and the table is
  left as it is; so two calls with the same input on the same table agree.
\<close>

theorem resolve_deterministic_off_external_path:
  assumes "\<not> fallsThrough store token net ts"
  shows "serve_price env1 store token net ts = serve_price env2 store token net ts \<and>
         snd (serve_price env1 store token net ts) = store"
  using assms
  by (auto simp: serve_price_def fallsThrough_def Let_def split: list.splits)

text \<open>
  The theorem at a cache hit, under two environments.
\<close>

theorem resolve_deterministic_off_external_path_witness:
  "serve_price \<lparr>alchemyApiKey = Some ''key'', random = 0\<rparr>
     [\<lparr>token_address = ''0xab'', network = ''eth'', timestamp = 15100, price = 7 / 2, date = 0\<rparr>]
     ''0xab'' ''eth'' 15000 =
   serve_price \<lparr>alchemyApiKey = None, random = 1 / 2\<rparr>
     [\<lparr>token_address = ''0xab'', network = ''eth'', timestamp = 15100, price = 7 / 2, date = 0\<rparr>]
     ''0xab'' ''eth'' 15000"
proof -
  have "\<not> fallsThrough
     [\<lparr>token_address = ''0xab'', network = ''eth'', timestamp = 15100, price = 7 / 2, date = 0\<rparr>]
     ''0xab'' ''eth'' 15000"
    by code_simp
  from resolve_deterministic_off_external_path [OF this] show ?thesis by blast
qed



subsection \<open>The fallback path: what is stored and what is returned\<close>

lemma insertPrices_single:
  "insertPrices store [n] =
     (case pgRow n of
        None \<Rightarrow> store
      | Some r \<Rightarrow> if list_all (\<lambda>r'. \<not> sameDay r r') store then store @ [r] else store)"
  by (simp add: insertPrices_def split: option.splits)

lemma pgRound8_scale: "\<exists>n::int. pgRound8 v = of_int n / 10 ^ 8"
proof (cases "v < 0")
  case True
  then have "pgRound8 v = of_int (- \<lfloor>(- v) * 10 ^ 8 + 1 / 2\<rfloor>) / 10 ^ 8"
    by (simp add: pgRound8_def)
  then show ?thesis by blast
next
  case False
  then have "pgRound8 v = of_int \<lfloor>v * 10 ^ 8 + 1 / 2\<rfloor> / 10 ^ 8"
    by (simp add: pgRound8_def)
  then show ?thesis by blast
qed

lemma pgNumeric8_scale: "pgNumeric8 x = Some v \<Longrightarrow> \<exists>n::int. v = of_int n / 10 ^ 8"
  using pgRound8_scale by (cases x) (auto simp: Let_def split: if_splits)

lemma queryExactMatch_after_insert:
  assumes "queryExactMatch store token net ts 3600 = []"
  shows "queryExactMatch
           (store @ [\<lparr>token_address = toLowerCase token, network = net, timestamp = ts,
                      price = p, date = dt\<rparr>]) token net ts 3600 =
         [\<lparr>token_address = toLowerCase token, network = net, timestamp = ts,
           price = p, date = dt\<rparr>]"
proof -
  have "filter (\<lambda>r. forToken token net r \<and> ts - 3600 \<le> timestamp r \<and> timestamp r \<le> ts + 3600)
          store = []"
    using assms by (simp add: queryExactMatch_def sort_key_Nil_iff)
  then show ?thesis by (simp add: queryExactMatch_def forToken_def)
qed

text \<open>
  Claim C10 as stated fails.  On the empty table, with the draw \<open>5/512\<close>, the price
  fetched is \<open>1.0009765625\<close>.  The response carries \<open>1.00097656\<close>; the column keeps
  eight decimals, so the row holds \<open>1.00097656\<close> too, not the price fetched; and the next
  call with the same input answers from the cache with the very price of the first
  response.
\<close>

theorem fallback_stores_eight_decimals:
  "mockPrice \<lparr>alchemyApiKey = Some ''key'', random = 5 / 512\<rparr> = Fin (1025 / 1024)
   \<and> serve_price \<lparr>alchemyApiKey = Some ''key'', random = 5 / 512\<rparr> []
        ''0xab'' ''eth'' 1699056000 =
       (Inr \<lparr>resp_price = fl (100097656 / 100000000), resp_source = ''alchemy''\<rparr>,
        [\<lparr>token_address = ''0xab'', network = ''eth'', timestamp = 1699056000,
          price = flVal (100097656 / 100000000), date = 19665\<rparr>])
   \<and> serve_price \<lparr>alchemyApiKey = Some ''key'', random = 5 / 512\<rparr>
        [\<lparr>token_address = ''0xab'', network = ''eth'', timestamp = 1699056000,
          price = flVal (100097656 / 100000000), date = 19665\<rparr>]
        ''0xab'' ''eth'' 1699056000 =
       (Inr \<lparr>resp_price = fl (100097656 / 100000000), resp_source = ''cache''\<rparr>,
        [\<lparr>token_address = ''0xab'', network = ''eth'', timestamp = 1699056000,
          price = flVal (100097656 / 100000000), date = 19665\<rparr>])
   \<and> fl (100097656 / 100000000) \<noteq> Fin (1025 / 1024)"
  by code_simp

text \<open>
  Claim C10, as amended.  On the fallback path, for a timestamp of the years 1970 to
  9999, whose date prints as \<open>YYYY-MM-DD\<close>, the response carries the fetched price
  rounded to eight decimals and the handler hands the fetched price itself to
  \<open>insert\<close>.  When the token has a row of that day
  already, or the database refuses the number, nothing is written.  Otherwise one row is
  written; its price is the fetched price rounded to eight decimals by the column, and a
  later call with the same input answers from the cache with that stored price, read as
  a double.
\<close>

theorem fallback_insert_and_next_call:
  assumes fields: "token \<noteq> []" "net \<noteq> []"
    and range: "0 < ts" "ts < 253402300800"
    and ft: "fallsThrough store token net ts"
    and key: "alchemyApiKey env = Some k" "k \<noteq> []"
  shows "fst (serve_price env store token net ts) =
           Inr \<lparr>resp_price = toFixed8 (mockPrice env), resp_source = ''alchemy''\<rparr>
       \<and> ((\<exists>r\<in>set store. token_address r = toLowerCase token \<and> network r = net
                          \<and> date r = ts div 86400)
            \<or> pgNumeric8 (mockPrice env) = None
          \<longrightarrow> snd (serve_price env store token net ts) = store)
       \<and> ((\<forall>r\<in>set store. \<not> (token_address r = toLowerCase token \<and> network r = net
                               \<and> date r = ts div 86400))
            \<and> pgNumeric8 (mockPrice env) = Some v
          \<longrightarrow> snd (serve_price env store token net ts) =
                store @ [\<lparr>token_address = toLowerCase token, network = net, timestamp = ts,
                           price = flVal v, date = ts div 86400\<rparr>]
              \<and> (\<exists>n::int. v = of_int n / 10 ^ 8)
              \<and> serve_price env'
                  (store @ [\<lparr>token_address = toLowerCase token, network = net, timestamp = ts,
                             price = flVal v, date = ts div 86400\<rparr>]) token net ts =
                (Inr \<lparr>resp_price = Fin (flVal v), resp_source = ''cache''\<rparr>,
                 store @ [\<lparr>token_address = toLowerCase token, network = net, timestamp = ts,
                            price = flVal v, date = ts div 86400\<rparr>]))"
proof -
  let ?new = "\<lparr>new_token_address = toLowerCase token, new_network = net, new_timestamp = ts,
               new_price = mockPrice env, new_date = ts div 86400\<rparr>"
  let ?row = "\<lambda>p. \<lparr>token_address = toLowerCase token, network = net, timestamp = ts,
               price = p, date = ts div 86400\<rparr>"
  have nz: "ts \<noteq> 0" using range by simp
  have day: "isoDate ts = Some (ts div 86400)" using range by (simp add: isoDate_def)
  have exact: "queryExactMatch store token net ts 3600 = []"
    and side: "queryBefore store token net ts = [] \<or> queryAfter store token net ts = []"
    using ft by (simp_all add: fallsThrough_def)
  have res: "serve_price env store token net ts =
      (Inr \<lparr>resp_price = toFixed8 (mockPrice env), resp_source = ''alchemy''\<rparr>,
       insertPrices store [?new])"
    using fields nz exact side key day
    by (auto simp: serve_price_def Let_def split: list.splits)
  have first: "fst (serve_price env store token net ts) =
      Inr \<lparr>resp_price = toFixed8 (mockPrice env), resp_source = ''alchemy''\<rparr>"
    by (simp add: res)
  have refused: "snd (serve_price env store token net ts) = store"
    if "(\<exists>r\<in>set store. token_address r = toLowerCase token \<and> network r = net
                        \<and> date r = ts div 86400)
        \<or> pgNumeric8 (mockPrice env) = None"
    using that
    by (auto simp: res insertPrices_single pgRow_def sameDay_def list_all_iff
             split: option.splits)
  have written: "snd (serve_price env store token net ts) = store @ [?row (flVal v)]"
    if "\<forall>r\<in>set store. \<not> (token_address r = toLowerCase token \<and> network r = net
                              \<and> date r = ts div 86400)"
      "pgNumeric8 (mockPrice env) = Some v"
    using that
    by (auto simp: res insertPrices_single pgRow_def sameDay_def list_all_iff)
  have again: "serve_price env' (store @ [?row (flVal v)]) token net ts =
      (Inr \<lparr>resp_price = Fin (flVal v), resp_source = ''cache''\<rparr>, store @ [?row (flVal v)])"
    using fields nz queryExactMatch_after_insert [OF exact, of "flVal v" "ts div 86400"]
    by (simp add: serve_price_def)
  show ?thesis
    using first refused written again pgNumeric8_scale by blast
qed


text \<open>
  The theorem at the call of the counterexample, where the row is written, and at a call
  for a day that has a row already, ten thousand seconds earlier, where nothing is
  written.
\<close>

theorem fallback_insert_and_next_call_witness:
  "snd (serve_price \<lparr>alchemyApiKey = Some ''key'', random = 5 / 512\<rparr> []
          ''0xAB'' ''eth'' 1699056000) =
     [\<lparr>token_address = ''0xab'', network = ''eth'', timestamp = 1699056000,
       price = flVal (100097656 / 100000000), date = 19665\<rparr>]
   \<and> serve_price \<lparr>alchemyApiKey = None, random = 0\<rparr>
        [\<lparr>token_address = ''0xab'', network = ''eth'', timestamp = 1699056000,
          price = flVal (100097656 / 100000000), date = 19665\<rparr>]
        ''0xAB'' ''eth'' 1699056000 =
       (Inr \<lparr>resp_price = Fin (flVal (100097656 / 100000000)), resp_source = ''cache''\<rparr>,
        [\<lparr>token_address = ''0xab'', network = ''eth'', timestamp = 1699056000,
          price = flVal (100097656 / 100000000), date = 19665\<rparr>])
   \<and> snd (serve_price \<lparr>alchemyApiKey = Some ''key'', random = 5 / 512\<rparr>
          [\<lparr>token_address = ''0xab'', network = ''eth'', timestamp = 1699086000,
            price = 1, date = 19665\<rparr>]
          ''0xAB'' ''eth'' 1699096000) =
     [\<lparr>token_address = ''0xab'', network = ''eth'', timestamp = 1699086000,
       price = 1, date = 19665\<rparr>]"
proof -
  let ?env = "\<lparr>alchemyApiKey = Some ''key'', random = 5 / 512\<rparr>"
  let ?env' = "\<lparr>alchemyApiKey = None, random = 0\<rparr>"
  let ?old = "\<lparr>token_address = ''0xab'', network = ''eth'', timestamp = 1699086000,
               price = 1, date = 19665\<rparr>"
  have f1: "''0xAB'' \<noteq> []" and f2: "''eth'' \<noteq> []" by simp_all
  have r1: "(0::int) < 1699056000" and r2: "(1699056000::int) < 253402300800" by simp_all
  have s1: "(0::int) < 1699096000" and s2: "(1699096000::int) < 253402300800" by simp_all
  have k1: "alchemyApiKey ?env = Some ''key''" and k2: "''key'' \<noteq> []" by simp_all
  have ft1: "fallsThrough [] ''0xAB'' ''eth'' 1699056000" by code_simp
  have ft2: "fallsThrough [?old] ''0xAB'' ''eth'' 1699096000" by code_simp
  have l: "toLowerCase ''0xAB'' = ''0xab''" by code_simp
  have m: "mockPrice ?env = Fin (1025 / 1024)" by code_simp
  have p: "pgNumeric8 (Fin (1025 / 1024)) = Some (100097656 / 100000000)" by code_simp
  have d1: "(1699056000::int) div 86400 = 19665" and d2: "(1699096000::int) div 86400 = 19665"
    by simp_all
  note T1 = fallback_insert_and_next_call [OF f1 f2 r1 r2 ft1 k1 k2,
      of "100097656 / 100000000" ?env']
  note T2 = fallback_insert_and_next_call [OF f1 f2 s1 s2 ft2 k1 k2]
  have a: "snd (serve_price ?env [] ''0xAB'' ''eth'' 1699056000) =
             [\<lparr>token_address = ''0xab'', network = ''eth'', timestamp = 1699056000,
               price = flVal (100097656 / 100000000), date = 19665\<rparr>]"
    and b: "serve_price ?env'
        [\<lparr>token_address = ''0xab'', network = ''eth'', timestamp = 1699056000,
          price = flVal (100097656 / 100000000), date = 19665\<rparr>]
        ''0xAB'' ''eth'' 1699056000 =
       (Inr \<lparr>resp_price = Fin (flVal (100097656 / 100000000)), resp_source = ''cache''\<rparr>,
        [\<lparr>token_address = ''0xab'', network = ''eth'', timestamp = 1699056000,
          price = flVal (100097656 / 100000000), date = 19665\<rparr>])"
    using T1 unfolding l m p d1 by simp_all
  have c: "snd (serve_price ?env [?old] ''0xAB'' ''eth'' 1699096000) = [?old]"
    using T2 unfolding l d2 by simp
  show ?thesis using a b c by simp
qed


section \<open>The schedule function: proofs\<close>

subsection \<open>The enumeration of the days\<close>

lemma dailyLoop_nth:
  "i < length (dailyLoop now ts) \<Longrightarrow> dailyLoop now ts ! i = ts + oneDaySeconds * int i"
proof (induction now ts arbitrary: i rule: dailyLoop.induct)
  case (1 now ts)
  show ?case
  proof (cases "ts \<le> now")
    case True
    then have unf: "dailyLoop now ts = ts # dailyLoop now (ts + oneDaySeconds)"
      by (subst dailyLoop.simps) simp
    show ?thesis
    proof (cases i)
      case 0
      then show ?thesis by (simp add: unf)
    next
      case (Suc k)
      then have "k < length (dailyLoop now (ts + oneDaySeconds))" using "1.prems" unf by simp
      then have "dailyLoop now (ts + oneDaySeconds) ! k = ts + oneDaySeconds + oneDaySeconds * int k"
        using "1.IH" [OF True] by simp
      then show ?thesis using Suc by (simp add: unf algebra_simps)
    qed
  next
    case False
    then have "dailyLoop now ts = []" by (subst dailyLoop.simps) simp
    then show ?thesis using "1.prems" by simp
  qed
qed

lemma dailyLoop_upper: "x \<in> set (dailyLoop now ts) \<Longrightarrow> x \<le> now"
proof (induction now ts rule: dailyLoop.induct)
  case (1 now ts)
  show ?case
  proof (cases "ts \<le> now")
    case True
    then have "dailyLoop now ts = ts # dailyLoop now (ts + oneDaySeconds)"
      by (subst dailyLoop.simps) simp
    then show ?thesis using "1.prems" "1.IH" [OF True] True by auto
  next
    case False
    then have "dailyLoop now ts = []" by (subst dailyLoop.simps) simp
    then show ?thesis using "1.prems" by simp
  qed
qed

lemma dailyLoop_start:
  "ts \<le> now \<Longrightarrow> dailyLoop now ts = ts # dailyLoop now (ts + oneDaySeconds)"
  by (subst dailyLoop.simps) simp

text \<open>
  Claim C9.  For a start not after the current time \<open>now = floor(Date.now() / 1000)\<close>,
  \<open>generateDailyTimestamps\<close> returns a list that is not empty, begins with the start,
  ends at or before \<open>now\<close>, steps by 86400 seconds from each element to the next, and
  is strictly increasing.
\<close>

theorem generateDailyTimestamps_enumeration:
  assumes "start \<le> nowMs div 1000"
  shows "generateDailyTimestamps nowMs start \<noteq> []
       \<and> hd (generateDailyTimestamps nowMs start) = start
       \<and> last (generateDailyTimestamps nowMs start) \<le> nowMs div 1000
       \<and> (\<forall>i. Suc i < length (generateDailyTimestamps nowMs start) \<longrightarrow>
             generateDailyTimestamps nowMs start ! Suc i =
             generateDailyTimestamps nowMs start ! i + 86400)
       \<and> sorted_wrt (<) (generateDailyTimestamps nowMs start)"
proof -
  let ?xs = "dailyLoop (nowMs div 1000) start"
  have eq: "generateDailyTimestamps nowMs start = ?xs"
    by (simp add: generateDailyTimestamps_def)
  have unf: "?xs = start # dailyLoop (nowMs div 1000) (start + oneDaySeconds)"
    using assms by (simp add: dailyLoop_start)
  have ne: "?xs \<noteq> []" and h: "hd ?xs = start" using unf by simp_all
  have "last ?xs \<in> set ?xs" using ne by simp
  then have l: "last ?xs \<le> nowMs div 1000" by (rule dailyLoop_upper)
  have nth: "\<And>i. i < length ?xs \<Longrightarrow> ?xs ! i = start + 86400 * int i"
    using dailyLoop_nth [of _ "nowMs div 1000" start] by (simp add: oneDaySeconds_def)
  have stride: "\<forall>i. Suc i < length ?xs \<longrightarrow> ?xs ! Suc i = ?xs ! i + 86400"
    by (simp add: nth)
  have "\<And>i j. i < j \<Longrightarrow> j < length ?xs \<Longrightarrow> ?xs ! i < ?xs ! j"
    by (simp add: nth)
  then have s: "sorted_wrt (<) ?xs" by (simp add: sorted_wrt_iff_nth_less)
  show ?thesis unfolding eq using ne h l stride s by blast
qed

text \<open>
  The theorem at the clock \<open>200000123\<close> milliseconds and the start \<open>100000\<close>: the
  list is \<open>[100000, 186400]\<close>.
\<close>

theorem generateDailyTimestamps_enumeration_witness:
  "generateDailyTimestamps 200000123 100000 \<noteq> []
   \<and> hd (generateDailyTimestamps 200000123 100000) = 100000
   \<and> last (generateDailyTimestamps 200000123 100000) \<le> 200000
   \<and> generateDailyTimestamps 200000123 100000 ! Suc 0 =
       generateDailyTimestamps 200000123 100000 ! 0 + 86400
   \<and> sorted_wrt (<) (generateDailyTimestamps 200000123 100000)"
proof -
  have le: "(100000::int) \<le> 200000123 div 1000" by simp
  have len: "Suc 0 < length (generateDailyTimestamps 200000123 100000)" by code_simp
  show ?thesis
    using generateDailyTimestamps_enumeration [OF le] len by simp
qed


subsection \<open>The job record at its creation\<close>

text \<open>
  Claim C8 as stated fails: the job is inserted with the status \<open>running\<close>, not
  \<open>pending\<close>.  The table holds a point of the day 19662, the clock is four days later,
  so three days are enumerated.
\<close>

theorem job_created_running:
  "map_option status
     (price_fetch_jobs
        (fst (snd (serve_schedule
           \<lparr>nowBirthdate = 1699056000000, nowEnumerate = 1699056000123,
            nowJobId = 1699056000456, fetchPriceFromAlchemy = fetchFailingAt 0\<rparr>
           \<lparr>token_prices =
              [\<lparr>token_address = ''0xabcdef123456'', network = ''eth'',
                timestamp = 1698796800, price = 1, date = 19662\<rparr>],
            price_fetch_jobs = noJobs\<rparr>
           ''0xABCDEF123456'' ''eth'')))
        ''job-0xABCDEF-1699056000456'') = Some ''running''"
  by code_simp

text \<open>
  Claim C8, as amended.  When the body names a token and a network, the enumeration of
  the days is not empty and the table of jobs holds no row of the job id yet, the handler
  inserts a job under that id whose \<open>total_days\<close> is the length of the enumeration,
  whose \<open>completed_days\<close> is \<open>0\<close> and whose status is \<open>running\<close>, and hands the
  enumeration to the background task.
\<close>

theorem job_created_with_totals:
  assumes "token \<noteq> []" "net \<noteq> []"
    and "generateDailyTimestamps (nowEnumerate env) (startTimestampOf env d token net) \<noteq> []"
    and "price_fetch_jobs d (makeJobId env token) = None"
  shows "\<exists>resp d' t j.
           serve_schedule env d token net = (Inr resp, d', Some t)
         \<and> task_jobId t = makeJobId env token
         \<and> task_dailyTimestamps t =
             generateDailyTimestamps (nowEnumerate env) (startTimestampOf env d token net)
         \<and> price_fetch_jobs d' (task_jobId t) = Some j
         \<and> total_days j = length (task_dailyTimestamps t)
         \<and> completed_days j = 0
         \<and> status j = ''running''"
  using assms by (simp add: serve_schedule_def Let_def insertJob_def)

text \<open>The theorem at the call of the counterexample.\<close>

theorem job_created_with_totals_witness:
  "\<exists>resp d' t j.
     serve_schedule
       \<lparr>nowBirthdate = 1699056000000, nowEnumerate = 1699056000123,
        nowJobId = 1699056000456, fetchPriceFromAlchemy = fetchFailingAt 0\<rparr>
       \<lparr>token_prices =
          [\<lparr>token_address = ''0xabcdef123456'', network = ''eth'',
            timestamp = 1698796800, price = 1, date = 19662\<rparr>],
        price_fetch_jobs = noJobs\<rparr>
       ''0xABCDEF123456'' ''eth'' = (Inr resp, d', Some t)
   \<and> task_dailyTimestamps t = [1698883200, 1698969600, 1699056000]
   \<and> price_fetch_jobs d' (task_jobId t) = Some j
   \<and> total_days j = 3
   \<and> completed_days j = 0
   \<and> status j = ''running''"
proof -
  let ?env = "\<lparr>nowBirthdate = 1699056000000, nowEnumerate = 1699056000123,
        nowJobId = 1699056000456, fetchPriceFromAlchemy = fetchFailingAt 0\<rparr>"
  let ?d = "\<lparr>token_prices =
          [\<lparr>token_address = ''0xabcdef123456'', network = ''eth'',
            timestamp = 1698796800, price = 1, date = 19662\<rparr>],
        price_fetch_jobs = noJobs\<rparr>"
  have f1: "''0xABCDEF123456'' \<noteq> []" and f2: "''eth'' \<noteq> []" by simp_all
  have g: "generateDailyTimestamps (nowEnumerate ?env)
             (startTimestampOf ?env ?d ''0xABCDEF123456'' ''eth'') =
           [1698883200, 1698969600, 1699056000]"
    by code_simp
  then have ne: "generateDailyTimestamps (nowEnumerate ?env)
             (startTimestampOf ?env ?d ''0xABCDEF123456'' ''eth'') \<noteq> []"
    by simp
  have fresh: "price_fetch_jobs ?d (makeJobId ?env ''0xABCDEF123456'') = None"
    by (simp add: noJobs_def)
  from job_created_with_totals [OF f1 f2 ne fresh]
  obtain resp d' t j where
    a: "serve_schedule ?env ?d ''0xABCDEF123456'' ''eth'' = (Inr resp, d', Some t)"
    and b: "task_dailyTimestamps t = [1698883200, 1698969600, 1699056000]"
    and c: "price_fetch_jobs d' (task_jobId t) = Some j"
    and e: "total_days j = length (task_dailyTimestamps t)"
    and f: "completed_days j = 0" "status j = ''running''"
    unfolding g by blast
  have "total_days j = 3" using e b by simp
  then show ?thesis using a b c f by blast
qed


subsection \<open>The chunks\<close>





subsection \<open>The job row through the loop\<close>










subsection \<open>A failing chunk\<close>

















end
